theory Spec2Isabelle
  imports Complex_Main "HOL-Library.Sublist" "HOL-Library.Word"
begin

section \<open>The LISA batch inference script \<open>chat_do_all.py\<close>\<close>

text \<open>
  The script walks a dataset tree for (image, label) pairs, builds one fixed prompt,
  runs the segmentation model on every image and writes, beside each label file, one
  grayscale mask and one red overlay per predicted mask. The model, the tokenizer, the
  conversation template, the resize transform and the image codec are libraries: they
  enter the embedding as fields of an environment record. Everything the script itself
  computes (paths, prompt strings, normalisation and padding, rasters, the control flow
  of its loops and the exceptions that end it) is defined below, function by function.
\<close>

subsection \<open>Python string primitives\<close>

text \<open>
  \<open>s.replace(old, new)\<close>: scan from the left, replace each occurrence of \<open>old\<close> found
  and continue behind it (occurrences never overlap and replaced text is not scanned
  again). For an empty \<open>old\<close> Python puts \<open>new\<close> before every character and at the end.
\<close>

function str_replace :: "string \<Rightarrow> string \<Rightarrow> string \<Rightarrow> string" where
  "str_replace old new s =
     (if old = [] then new @ concat (map (\<lambda>c. c # new) s)
      else if s = [] then []
      else if prefix old s then new @ str_replace old new (drop (length old) s)
      else hd s # str_replace old new (tl s))"
  by pat_completeness auto
termination
  by (relation "measure (\<lambda>(old, new, s). length s)") auto

declare str_replace.simps [simp del]

text \<open>
  \<open>s.split(sep)\<close> for a non-empty separator: the pieces between the occurrences of
  \<open>sep\<close>, found from the left; the result is never empty. (Python raises ValueError for
  an empty separator; the script only splits at \<open>"/"\<close> and \<open>"."\<close>, and the model returns
  the string unsplit there.)
\<close>

function str_split :: "string \<Rightarrow> string \<Rightarrow> string list" where
  "str_split sep s =
     (if sep = [] then [s]
      else if s = [] then [[]]
      else if prefix sep s then [] # str_split sep (drop (length sep) s)
      else (case str_split sep (tl s) of
              [] \<Rightarrow> [[hd s]]
            | p # ps \<Rightarrow> (hd s # p) # ps))"
  by pat_completeness auto
termination
  by (relation "measure (\<lambda>(sep, s). length s)") auto

declare str_split.simps [simp del]

text \<open>\<open>sep.join(parts)\<close>.\<close>

fun str_join :: "string \<Rightarrow> string list \<Rightarrow> string" where
  "str_join sep [] = []"
| "str_join sep [p] = p"
| "str_join sep (p # q # ps) = p @ sep @ str_join sep (q # ps)"

text \<open>\<open>str(n)\<close> and \<open>"{}".format(n)\<close> for an integer: its decimal digits, with a sign.\<close>

definition digit_char :: "nat \<Rightarrow> char" where
  "digit_char d = ''0123456789'' ! d"

fun str_nat :: "nat \<Rightarrow> string" where
  "str_nat n = (if n < 10 then [digit_char n] else str_nat (n div 10) @ [digit_char (n mod 10)])"

declare str_nat.simps [simp del]

definition str_int :: "int \<Rightarrow> string" where
  "str_int i = (if i < 0 then CHR ''-'' # str_nat (nat (- i)) else str_nat (nat i))"

text \<open>
  A decomposition \<open>parts\<close> of a string at the occurrences of \<open>old\<close> that a scan from the
  left finds: no occurrence of \<open>old\<close> starts inside a part (so none lies in the part
  followed by all but the last character of \<open>old\<close>), and the last part holds none.
\<close>

fun leftmost_parts :: "string \<Rightarrow> string list \<Rightarrow> bool" where
  "leftmost_parts old [] = False"
| "leftmost_parts old [p] = (\<not> sublist old p)"
| "leftmost_parts old (p # q # ps) =
     (\<not> sublist old (p @ butlast old) \<and> leftmost_parts old (q # ps))"

subsection \<open>Exceptions\<close>

text \<open>
  Every exception that can end a function of the script is a value. None of them is
  caught anywhere in the script, so each one ends the run.
\<close>

datatype error =
    KeyError int \<comment> \<open>\<open>Prompts[k]\<close> for a key \<open>k\<close> that the dict does not have\<close>
  | OSError string \<comment> \<open>\<open>os.listdir\<close> of a path that cannot be listed\<close>
  | RuntimeError \<comment> \<open>torch: shapes that do not broadcast, a negative size in \<open>F.pad\<close>\<close>
  | CvError \<comment> \<open>\<open>cv2.error\<close>: \<open>cv2.cvtColor\<close> of \<open>None\<close>, \<open>cv2.imwrite\<close> of an empty array\<close>
  | ShapeError \<comment> \<open>numpy: operands that do not broadcast, a boolean index of another shape\<close>
  | ModelError \<comment> \<open>anything \<open>model.evaluate\<close> raises\<close>

subsection \<open>Prompt registry (lines 19 to 58)\<close>

abbreviation LF :: string where
  "LF \<equiv> [CHR 0x0A]"

definition PROMPT1 :: string where
  "PROMPT1 =
     LF @
     ''- People who are walking or riding kick scooters (including electric kick scooters), segways, skateboards, etc. are labeled as pedestrians.'' @
     LF @
     ''- People inside other vehicles are not labeled, except for people standing on the top of cars/trucks or standing on flatbeds of trucks.'' @
     LF @
     ''- A person riding a bicycle is not labeled as a pedestrian, but labeled as a cyclist instead.'' @
     LF @
     ''- Mannequins, statues, billboards, posters, or reflections of people are not labeled.'' @
     LF @
     ''- Include small child or carrying small items (smaller than 2m in size such as umbrella or small handbag or a sign).'' @
     LF @
     ''- Include small mobility devices like a kick scooter (including electric kick scooter), a segway, a skateboard, etc'' @
     LF @
     ''- If the pedestrian is carrying an object larger than 2m, or pushing a bike or shopping cart, the bounding box does not include the additional object.'' @
     LF @
     ''- If the pedestrian is pushing a stroller with a child in it, separate bounding boxes are created for the pedestrian and the child. The stroller is not included in the child bounding box.'' @
     LF @
     ''- If pedestrians overlap each other, they are labeled as separate objects. If they overlap then the bounding boxes can overlap as well.'' @
     LF"

definition PROMPT2 :: string where
  "PROMPT2 =
     LF @
     ''Output segmentation masks for pedestrians with:'' @
     LF @
     ''1. Label visible pedestrians.'' @
     LF @
     ''2. Do not label if pedestrian identity is unclear.'' @
     LF @
     ''3. Label people walking or on scooters, segways, skateboards.'' @
     LF @
     ''4. Do not label people inside vehicles, unless on top/flatbeds.'' @
     LF @
     ''5. Cyclists are not labeled as pedestrians.'' @
     LF @
     ''6. Ignore mannequins, posters, reflections, etc.'' @
     LF @
     ''7. Use one box if pedestrian carries small items (<2m) or a child.'' @
     LF @
     ''8. Label scooter/segway/skateboard riders with one box.'' @
     LF @
     ''9. Exclude large items (>2m) or pushed carts/bikes from box.'' @
     LF @
     ''10. Use separate boxes for pedestrian and child in stroller; exclude stroller.'' @
     LF @
     ''11. Overlapping pedestrians get separate (possibly overlapping) boxes.'' @
     LF"

definition PROMPT3 :: string where
  "PROMPT3 =
     LF @
     ''pedestrian'' @
     LF"

definition PROMPT4 :: string where
  "PROMPT4 =
     LF"

definition Prompts :: "int \<rightharpoonup> string" where
  "Prompts = map_of [(1, PROMPT1), (2, PROMPT2), (3, PROMPT3), (4, PROMPT4)]"

text \<open>\<open>Prompts[args.prompt_number]\<close>: a dict lookup raises KeyError for a missing key.\<close>

definition Prompts_getitem :: "int \<Rightarrow> error + string" where
  "Prompts_getitem k = (case Prompts k of None \<Rightarrow> Inl (KeyError k) | Some p \<Rightarrow> Inr p)"

subsection \<open>Conversation builder (lines 233 to 238 of \<open>main\<close>)\<close>

text \<open>
  \<open>DEFAULT_IMAGE_TOKEN\<close>, \<open>DEFAULT_IM_START_TOKEN\<close> and \<open>DEFAULT_IM_END_TOKEN\<close> are
  imported from \<open>utils.utils\<close>, which is not among the sources: they are parameters.
\<close>

record tokens =
  DEFAULT_IMAGE_TOKEN :: string
  DEFAULT_IM_START_TOKEN :: string
  DEFAULT_IM_END_TOKEN :: string

definition user_turn :: "tokens \<Rightarrow> bool \<Rightarrow> string \<Rightarrow> string" where
  "user_turn tk use_mm_start_end prompt =
     (let prompt1 = DEFAULT_IMAGE_TOKEN tk @ LF @ prompt in
      if use_mm_start_end then
        (let replace_token =
               DEFAULT_IM_START_TOKEN tk @ DEFAULT_IMAGE_TOKEN tk @ DEFAULT_IM_END_TOKEN tk
         in str_replace (DEFAULT_IMAGE_TOKEN tk) replace_token prompt1)
      else prompt1)"

subsection \<open>Pair discovery (\<open>collect_pairs\<close>, lines 60 to 83)\<close>

text \<open>
  The file system is only read. \<open>os_walk\<close> is the sequence of \<open>(root, dirs, files)\<close>
  triples that \<open>os.walk(root_dir)\<close> yields; \<open>os_listdir\<close> raises where the path cannot
  be listed (it is a file, or it is gone).
\<close>

record filesystem =
  os_walk :: "string \<Rightarrow> (string \<times> string list \<times> string list) list"
  os_listdir :: "string \<Rightarrow> error + string list"
  os_isdir :: "string \<Rightarrow> bool"
  os_exists :: "string \<Rightarrow> bool"

text \<open>\<open>os.path.join(a, b)\<close> and \<open>os.path.basename(p)\<close> of \<open>posixpath\<close>.\<close>

definition path_join :: "string \<Rightarrow> string \<Rightarrow> string" where
  "path_join a b =
     (if prefix ''/'' b then b
      else if a = [] \<or> suffix ''/'' a then a @ b
      else a @ ''/'' @ b)"

definition basename :: "string \<Rightarrow> string" where
  "basename p = rev (takeWhile (\<lambda>c. c \<noteq> CHR ''/'') (rev p))"

definition label_clip_path :: "string \<Rightarrow> string" where
  "label_clip_path image_clip_path = str_replace ''/images/'' ''/labels/'' image_clip_path"

definition label_file :: "string \<Rightarrow> string" where
  "label_file frame_file = str_replace ''.jpeg'' ''.png'' frame_file"

text \<open>The loop over the entries of one image timestamp directory (lines 76 to 81).\<close>

fun frame_loop :: "filesystem \<Rightarrow> string \<Rightarrow> string \<Rightarrow> string list \<Rightarrow> (string \<times> string) list" where
  "frame_loop fs image_ts_path label_ts_path [] = []"
| "frame_loop fs image_ts_path label_ts_path (frame_file # rest) =
     (let image_path = path_join image_ts_path frame_file;
          label_path = path_join label_ts_path (label_file frame_file)
      in (if os_exists fs label_path then [(image_path, label_path)] else [])
         @ frame_loop fs image_ts_path label_ts_path rest)"

text \<open>The loop over the entries of one clip directory (lines 69 to 81).\<close>

fun timestamp_loop ::
  "filesystem \<Rightarrow> string \<Rightarrow> string \<Rightarrow> string list \<Rightarrow> error + (string \<times> string) list" where
  "timestamp_loop fs image_clip_path label_clip [] = Inr []"
| "timestamp_loop fs image_clip_path label_clip (timestamp # rest) =
     (let image_ts_path = path_join image_clip_path timestamp;
          label_ts_path = path_join label_clip timestamp
      in if \<not> os_isdir fs label_ts_path then timestamp_loop fs image_clip_path label_clip rest
         else (case os_listdir fs image_ts_path of
                 Inl e \<Rightarrow> Inl e
               | Inr frame_files \<Rightarrow>
                   (case timestamp_loop fs image_clip_path label_clip rest of
                      Inl e \<Rightarrow> Inl e
                    | Inr others \<Rightarrow>
                        Inr (frame_loop fs image_ts_path label_ts_path frame_files @ others))))"

text \<open>The loop over the subdirectories of one \<open>images\<close> directory (lines 65 to 81).\<close>

fun clip_loop :: "filesystem \<Rightarrow> string \<Rightarrow> string list \<Rightarrow> error + (string \<times> string) list" where
  "clip_loop fs root_path [] = Inr []"
| "clip_loop fs root_path (clip_id # rest) =
     (let image_clip_path = path_join root_path clip_id
      in case os_listdir fs image_clip_path of
           Inl e \<Rightarrow> Inl e
         | Inr timestamps \<Rightarrow>
             (case timestamp_loop fs image_clip_path (label_clip_path image_clip_path) timestamps of
                Inl e \<Rightarrow> Inl e
              | Inr found \<Rightarrow>
                  (case clip_loop fs root_path rest of
                     Inl e \<Rightarrow> Inl e
                   | Inr others \<Rightarrow> Inr (found @ others))))"

fun walk_loop ::
  "filesystem \<Rightarrow> (string \<times> string list \<times> string list) list \<Rightarrow> error + (string \<times> string) list" where
  "walk_loop fs [] = Inr []"
| "walk_loop fs ((root_path, dirs, files) # rest) =
     (if basename root_path = ''images'' then
        (case clip_loop fs root_path dirs of
           Inl e \<Rightarrow> Inl e
         | Inr found \<Rightarrow>
             (case walk_loop fs rest of Inl e \<Rightarrow> Inl e | Inr others \<Rightarrow> Inr (found @ others)))
      else walk_loop fs rest)"

definition collect_pairs :: "filesystem \<Rightarrow> string \<Rightarrow> error + (string \<times> string) list" where
  "collect_pairs fs root_dir = walk_loop fs (os_walk fs root_dir)"

text \<open>
  For comparison, the label name in the words of the specification: the file name with
  its extension \<open>.jpeg\<close> replaced by \<open>.png\<close>.
\<close>

definition spec_label_file :: "string \<Rightarrow> string" where
  "spec_label_file frame_file =
     (if suffix ''.jpeg'' frame_file
      then take (length frame_file - length ''.jpeg'') frame_file @ ''.png''
      else frame_file)"

subsection \<open>Backbone transform (\<open>preprocess\<close>, lines 117 to 131)\<close>

text \<open>
  A tensor of shape (channel, height, width) is a list of channels, each a list of rows.
  The arithmetic of the elements is left open (any type with \<open>-\<close>, \<open>/\<close> and \<open>0\<close>), so
  that nothing below depends on how the floating-point operations round.
\<close>

type_synonym 'a tensor3 = "'a list list list"

definition tensor_height :: "'a tensor3 \<Rightarrow> nat" where
  "tensor_height x = (case x of [] \<Rightarrow> 0 | c # _ \<Rightarrow> length c)"

definition tensor_width :: "'a tensor3 \<Rightarrow> nat" where
  "tensor_width x = (case x of (r # _) # _ \<Rightarrow> length r | _ \<Rightarrow> 0)"

text \<open>
  \<open>x - pixel_mean\<close> and \<open>x / pixel_std\<close>: the second operand has shape (n, 1, 1) and is
  broadcast over the rows and columns; the channel dimensions must be equal, or one of
  them 1.
\<close>

definition broadcast_channels ::
  "('a \<Rightarrow> 'a \<Rightarrow> 'a) \<Rightarrow> 'a tensor3 \<Rightarrow> 'a list \<Rightarrow> error + 'a tensor3" where
  "broadcast_channels f x ks =
     (if length x = length ks then Inr (map (\<lambda>(c, k). map (map (\<lambda>v. f v k)) c) (zip x ks))
      else if length x = 1 then Inr (map (\<lambda>k. map (map (\<lambda>v. f v k)) (hd x)) ks)
      else if length ks = 1 then Inr (map (map (map (\<lambda>v. f v (hd ks)))) x)
      else Inl RuntimeError)"

text \<open>
  \<open>F.pad(x, (0, padw, 0, padh))\<close> of torch, constant mode, value 0: \<open>padw\<close> columns are
  added on the right of every row and \<open>padh\<close> rows at the bottom. A negative amount
  removes that many columns or rows instead (torch narrows the tensor); the call raises
  only when a resulting size would be negative.
\<close>

definition pad_end :: "int \<Rightarrow> 'a \<Rightarrow> 'a list \<Rightarrow> 'a list" where
  "pad_end p z xs =
     (if p < 0 then take (nat (int (length xs) + p)) xs else xs @ replicate (nat p) z)"

definition F_pad :: "'a::zero tensor3 \<Rightarrow> int \<Rightarrow> int \<Rightarrow> error + 'a tensor3" where
  "F_pad x padw padh =
     (let h = int (tensor_height x); w = int (tensor_width x)
      in if h + padh < 0 \<or> w + padw < 0 then Inl RuntimeError
         else Inr (map (\<lambda>c. pad_end padh (replicate (nat (w + padw)) 0)
                               (map (pad_end padw 0) c)) x))"

definition preprocess ::
  "'a::{zero,minus,inverse} tensor3 \<Rightarrow> 'a list \<Rightarrow> 'a list \<Rightarrow> int \<Rightarrow> error + 'a tensor3" where
  "preprocess x pixel_mean pixel_std img_size =
     (case broadcast_channels (-) x pixel_mean of
        Inl e \<Rightarrow> Inl e
      | Inr x1 \<Rightarrow>
          (case broadcast_channels (/) x1 pixel_std of
             Inl e \<Rightarrow> Inl e
           | Inr x2 \<Rightarrow>
               (let h = int (tensor_height x2);
                    w = int (tensor_width x2);
                    padh = img_size - h;
                    padw = img_size - w
                in F_pad x2 padw padh)))"

text \<open>The default arguments of \<open>preprocess\<close>.\<close>

definition pixel_mean_default :: "real list" where
  "pixel_mean_default = [123.675, 116.28, 103.53]"

definition pixel_std_default :: "real list" where
  "pixel_std_default = [58.395, 57.12, 57.375]"

definition img_size_default :: int where
  "img_size_default = 1024"

text \<open>
  A tensor with \<open>n\<close> channels of \<open>h\<close> rows of \<open>w\<close> columns. An image has at least one
  row, so that the width can be read off it.
\<close>

definition is_chw :: "nat \<Rightarrow> nat \<Rightarrow> nat \<Rightarrow> 'a tensor3 \<Rightarrow> bool" where
  "is_chw n h w x \<longleftrightarrow>
     length x = n \<and> (\<forall>c \<in> set x. length c = h \<and> (\<forall>r \<in> set c. length r = w))"

subsection \<open>Mask postprocessor and artifact writer (lines 301 to 345 of \<open>main\<close>)\<close>

text \<open>
  An image is a list of rows of pixels, a pixel the three 8-bit channels in the order
  of the array that holds it (B, G, R as \<open>cv2.imread\<close> returns and \<open>cv2.imwrite\<close>
  expects it; R, G, B after \<open>cv2.cvtColor\<close>). A predicted mask is a tensor of shape
  (n, height, width) of real scores; the script looks at its first plane only.
\<close>

type_synonym pixel = "8 word \<times> 8 word \<times> 8 word"
type_synonym image = "pixel list list"
type_synonym plane = "real list list"
type_synonym pred_mask = "plane list"

text \<open>\<open>cv2.cvtColor\<close> with \<open>COLOR_BGR2RGB\<close> or \<open>COLOR_RGB2BGR\<close>: both swap the outer channels.\<close>

definition cvtColor :: "image \<Rightarrow> image" where
  "cvtColor img = map (map (\<lambda>(c0, c1, c2). (c2, c1, c0))) img"

text \<open>\<open>pred_mask > 0\<close> (line 310).\<close>

definition binarize :: "plane \<Rightarrow> bool list list" where
  "binarize m = map (map (\<lambda>v. v > 0)) m"

text \<open>\<open>pred_mask.astype(np.uint8) * 255\<close> (lines 312 and 320): the product stays \<open>uint8\<close>.\<close>

definition gray_mask :: "bool list list \<Rightarrow> 8 word list list" where
  "gray_mask pm = map (map (\<lambda>b. (of_bool b :: 8 word) * 255)) pm"

text \<open>
  Lines 338 to 342. The blend is computed in double precision, where halves of small
  integers are exact, so it is a real number here; storing it into the \<open>uint8\<close> array
  truncates it towards zero.
\<close>

definition blend :: "8 word \<Rightarrow> bool \<Rightarrow> int \<Rightarrow> real" where
  "blend v b k =
     real (unat v) * 0.5 + real_of_int (int (unat (of_bool b :: 8 word)) * k) * 0.5"

definition to_uint8 :: "real \<Rightarrow> 8 word" where
  "to_uint8 v = word_of_int (if v < 0 then \<lceil>v\<rceil> else \<lfloor>v\<rfloor>)"

definition overlay_pixel :: "pixel \<Rightarrow> bool \<Rightarrow> pixel" where
  "overlay_pixel p b =
     (case p of (r, g, bl) \<Rightarrow>
        if b then (to_uint8 (blend r b 255), to_uint8 (blend g b 0), to_uint8 (blend bl b 0))
        else p)"

text \<open>
  \<open>save_img[pred_mask] = (...)[pred_mask]\<close> on a copy of the RGB image: numpy raises
  unless the mask has the height and width of the image.
\<close>

definition overlay :: "image \<Rightarrow> bool list list \<Rightarrow> error + image" where
  "overlay image_np pm =
     (if map length pm \<noteq> map length image_np then Inl ShapeError
      else Inr (map (\<lambda>(row, mrow). map (\<lambda>(p, b). overlay_pixel p b) (zip row mrow))
                  (zip image_np pm)))"

text \<open>
  What the script does to the outside, in order: lines printed and files written. A
  run is the list of its effects and the exception that ended it, if one did.
\<close>

datatype event =
    Print string
  | Print_pairs "(string \<times> string) list" \<comment> \<open>line 222, which prints the list itself\<close>
  | Imwrite_gray string "8 word list list"
  | Imwrite_bgr string image

type_synonym run = "event list \<times> error option"

text \<open>Lines 301 and 304.\<close>

definition parent_dir :: "string \<Rightarrow> string" where
  "parent_dir lbl_path = str_join ''/'' (butlast (str_split ''/'' lbl_path))"

definition base_name :: "string \<Rightarrow> string" where
  "base_name lbl_path = hd (str_split ''.'' (last (str_split ''/'' lbl_path)))"

definition mask_path :: "string \<Rightarrow> string \<Rightarrow> nat \<Rightarrow> int \<Rightarrow> string" where
  "mask_path pd bn i prompt_number =
     pd @ ''/'' @ bn @ ''_LISA_mask_'' @ str_int (int i) @ ''_prompt''
       @ str_int prompt_number @ ''.png''"

definition masked_img_path :: "string \<Rightarrow> string \<Rightarrow> nat \<Rightarrow> int \<Rightarrow> string" where
  "masked_img_path pd bn i prompt_number =
     pd @ ''/'' @ bn @ ''_LISA_masked_img_'' @ str_int (int i) @ ''_prompt''
       @ str_int prompt_number @ ''.png''"

text \<open>
  An array with no rows or no columns. \<open>cv2.imwrite\<close> and \<open>cv2.cvtColor\<close> raise
  \<open>cv2.error\<close> for such an array instead of writing or converting it.
\<close>

definition raster_empty :: "'a list list \<Rightarrow> bool" where
  "raster_empty r = (case r of [] \<Rightarrow> True | row # _ \<Rightarrow> row = [])"

text \<open>
  The body of the loop over the predicted masks (lines 306 to 345). Line 306 skips a
  mask without planes; it does not look at the height and width of the first plane, so
  a plane without rows or columns reaches \<open>cv2.imwrite\<close> on line 324, which raises
  before anything is written or printed.
\<close>

definition save_mask :: "string \<Rightarrow> string \<Rightarrow> int \<Rightarrow> image \<Rightarrow> nat \<Rightarrow> pred_mask \<Rightarrow> run" where
  "save_mask pd bn prompt_number image_np i pred =
     (case pred of
        [] \<Rightarrow> ([], None)
      | m # _ \<Rightarrow>
          (let pm = binarize m;
               gray = gray_mask pm
           in if raster_empty gray then ([], Some CvError)
              else
                (let written = [Imwrite_gray (mask_path pd bn i prompt_number) gray,
                                Print (mask_path pd bn i prompt_number @ '' has been saved.'')]
                 in case overlay image_np pm of
                      Inl e \<Rightarrow> (written, Some e)
                    | Inr save_img \<Rightarrow>
                        if raster_empty save_img then (written, Some CvError)
                        else
                          (written @
                           [Imwrite_bgr (masked_img_path pd bn i prompt_number)
                              (cvtColor save_img),
                            Print (masked_img_path pd bn i prompt_number
                                     @ '' has been saved.'')],
                           None))))"

text \<open>\<open>for i, pred_mask in enumerate(pred_masks)\<close>, from index \<open>i\<close> on.\<close>

fun save_masks :: "string \<Rightarrow> string \<Rightarrow> int \<Rightarrow> image \<Rightarrow> nat \<Rightarrow> pred_mask list \<Rightarrow> run" where
  "save_masks pd bn prompt_number image_np i [] = ([], None)"
| "save_masks pd bn prompt_number image_np i (pred # rest) =
     (case save_mask pd bn prompt_number image_np i pred of
        (es, Some e) \<Rightarrow> (es, Some e)
      | (es, None) \<Rightarrow>
          (case save_masks pd bn prompt_number image_np (Suc i) rest of
             (es', r) \<Rightarrow> (es @ es', r)))"

text \<open>
  For comparison, the base name in the words of the specification and of the comment
  on line 303: the file name without its extension, the part from the last dot on.
\<close>

definition spec_base_name :: "string \<Rightarrow> string" where
  "spec_base_name lbl_path =
     (let name = last (str_split ''/'' lbl_path)
      in if CHR ''.'' \<in> set name
         then rev (tl (dropWhile (\<lambda>c. c \<noteq> CHR ''.'') (rev name)))
         else name)"

text \<open>
  For comparison, the overlay colour in the words of the specification: the 50/50 blend
  of a pixel with pure red, rounded down to a byte. In the channel order B, G, R of the
  written file pure red is (0, 0, 255).
\<close>

definition red_blend :: "pixel \<Rightarrow> pixel" where
  "red_blend p =
     (case p of (b, g, r) \<Rightarrow>
        (word_of_nat ((unat b + 0) div 2), word_of_nat ((unat g + 0) div 2),
         word_of_nat ((unat r + 255) div 2)))"

subsection \<open>The run (\<open>main\<close>, lines 221 to 345)\<close>

text \<open>
  The libraries the loop calls. \<open>model_evaluate\<close> stands for the CLIP preprocessing,
  the tokenizer and \<open>model.evaluate\<close> together: from the rendered prompt, the RGB image
  and the backbone tensor it gives the decoded output text and the predicted masks, or
  raises.
\<close>

record env =
  filesys :: filesystem
  toks :: tokens
  conv_get_prompt :: "string \<Rightarrow> string \<Rightarrow> string"
  cv2_imread :: "string \<Rightarrow> image option"
  apply_image :: "int \<Rightarrow> image \<Rightarrow> image"
  model_evaluate :: "string \<Rightarrow> image \<Rightarrow> real tensor3 \<Rightarrow> error + string \<times> pred_mask list"

record args =
  folder_path :: string
  prompt_number :: int
  use_mm_start_end :: bool
  conv_type :: string
  image_size :: int

text \<open>\<open>torch.from_numpy(image).permute(2, 0, 1)\<close>, its bytes read as numbers.\<close>

definition permute_chw :: "image \<Rightarrow> real tensor3" where
  "permute_chw img =
     [map (map (\<lambda>(c0, c1, c2). real (unat c0))) img,
      map (map (\<lambda>(c0, c1, c2). real (unat c1))) img,
      map (map (\<lambda>(c0, c1, c2). real (unat c2))) img]"

text \<open>The body of the loop over the pairs (lines 225 to 345).\<close>

definition process_pair :: "env \<Rightarrow> args \<Rightarrow> string \<times> string \<Rightarrow> run" where
  "process_pair ev a pair =
     (case pair of (img_path, lbl_path) \<Rightarrow>
        let started = [Print (''Processing image: '' @ img_path @ '' '' @ lbl_path)]
        in case Prompts_getitem (prompt_number a) of
             Inl e \<Rightarrow> (started, Some e)
           | Inr prompt0 \<Rightarrow>
               let prompt = conv_get_prompt ev (conv_type a)
                              (user_turn (toks ev) (use_mm_start_end a) prompt0)
               in if \<not> os_exists (filesys ev) img_path
                  then (started @ [Print (''File not found in '' @ img_path)], None)
                  else
                    (case cv2_imread ev img_path of
                       None \<Rightarrow> (started, Some CvError)
                     | Some bgr \<Rightarrow>
                         let image_np = cvtColor bgr;
                             image = apply_image ev (image_size a) image_np
                         in case preprocess (permute_chw image) pixel_mean_default
                                   pixel_std_default img_size_default of
                              Inl e \<Rightarrow> (started, Some e)
                            | Inr image_t \<Rightarrow>
                                (case model_evaluate ev prompt image_np image_t of
                                   Inl e \<Rightarrow> (started, Some e)
                                 | Inr (text, pred_masks) \<Rightarrow>
                                     let text_output =
                                           str_replace ''  '' '' '' (str_replace LF [] text)
                                     in case save_masks (parent_dir lbl_path) (base_name lbl_path)
                                               (prompt_number a) image_np 0 pred_masks of
                                          (es, r) \<Rightarrow>
                                            (started
                                             @ [Print (''text_output: '' @ '' '' @ text_output)]
                                             @ es, r))))"

fun pairs_loop :: "env \<Rightarrow> args \<Rightarrow> (string \<times> string) list \<Rightarrow> run" where
  "pairs_loop ev a [] = ([], None)"
| "pairs_loop ev a (pair # rest) =
     (case process_pair ev a pair of
        (es, Some e) \<Rightarrow> (es, Some e)
      | (es, None) \<Rightarrow> (case pairs_loop ev a rest of (es', r) \<Rightarrow> (es @ es', r)))"

text \<open>
  Lines 221 to 345. Parsing the arguments, creating \<open>vis_save_path\<close> and loading the
  model come before and touch nothing that is modelled here.
\<close>

definition main :: "env \<Rightarrow> args \<Rightarrow> run" where
  "main ev a =
     (case collect_pairs (filesys ev) (folder_path a) of
        Inl e \<Rightarrow> ([], Some e)
      | Inr pairs \<Rightarrow>
          (case Prompts_getitem (prompt_number a) of
             Inl e \<Rightarrow> ([Print_pairs pairs], Some e)
           | Inr p \<Rightarrow>
               (case pairs_loop ev a pairs of
                  (es, r) \<Rightarrow> ([Print_pairs pairs, Print (''Prompt: '' @ p)] @ es, r))))"

subsection \<open>Sample inputs\<close>

text \<open>The token strings of the LLaVA code base, for the examples.\<close>

definition tk0 :: tokens where
  "tk0 = \<lparr>DEFAULT_IMAGE_TOKEN = ''<image>'',
           DEFAULT_IM_START_TOKEN = ''<im_start>'',
           DEFAULT_IM_END_TOKEN = ''<im_end>''\<rparr>"

text \<open>Two small tensors of three channels, of 1 by 2 and of 2 by 2 elements.\<close>

definition tensor_1x2 :: "real tensor3" where
  "tensor_1x2 = [[[100, 200]], [[50, 60]], [[7, 8]]]"

definition tensor_2x2 :: "real tensor3" where
  "tensor_2x2 = [[[10, 20], [30, 40]], [[50, 60], [70, 80]], [[90, 100], [110, 120]]]"

text \<open>A 2 by 2 plane of mask scores and a 2 by 2 image in B, G, R order.\<close>

definition plane0 :: plane where
  "plane0 = [[- 1, 0.5], [0, 2]]"

definition bgr0 :: image where
  "bgr0 = [[(10, 20, 30), (40, 50, 61)], [(70, 80, 90), (255, 255, 255)]]"

text \<open>
  A small dataset below \<open>/data\<close>: one clip, one timestamp, three image files, two label
  files. The libraries of the sample environment do as little as possible.
\<close>

definition fs0 :: filesystem where
  "fs0 = \<lparr>
     os_walk = (\<lambda>r. if r = ''/data'' then
        [(''/data'', [''images'', ''labels''], []),
         (''/data/images'', [''c1''], []),
         (''/data/images/c1'', [''t1''], []),
         (''/data/images/c1/t1'', [], [''f.jpeg'', ''g.jpeg'', ''a.jpeg.jpeg'']),
         (''/data/labels'', [''c1''], []),
         (''/data/labels/c1'', [''t1''], []),
         (''/data/labels/c1/t1'', [], [''f.png'', ''a.jpeg.png''])]
        else []),
     os_listdir = (\<lambda>p.
        case map_of
          [(''/data'', [''images'', ''labels'']),
           (''/data/images'', [''c1'']),
           (''/data/images/c1'', [''t1'']),
           (''/data/images/c1/t1'', [''f.jpeg'', ''g.jpeg'', ''a.jpeg.jpeg'']),
           (''/data/labels'', [''c1'']),
           (''/data/labels/c1'', [''t1'']),
           (''/data/labels/c1/t1'', [''f.png'', ''a.jpeg.png''])] p of
          None \<Rightarrow> Inl (OSError p)
        | Some names \<Rightarrow> Inr names),
     os_isdir = (\<lambda>p. p \<in> set
        [''/data'', ''/data/images'', ''/data/images/c1'', ''/data/images/c1/t1'',
         ''/data/labels'', ''/data/labels/c1'', ''/data/labels/c1/t1'']),
     os_exists = (\<lambda>p. p \<in> set
        [''/data'', ''/data/images'', ''/data/images/c1'', ''/data/images/c1/t1'',
         ''/data/labels'', ''/data/labels/c1'', ''/data/labels/c1/t1'',
         ''/data/images/c1/t1/f.jpeg'', ''/data/images/c1/t1/g.jpeg'',
         ''/data/images/c1/t1/a.jpeg.jpeg'',
         ''/data/labels/c1/t1/f.png'', ''/data/labels/c1/t1/a.jpeg.png''])\<rparr>"

definition env0 :: env where
  "env0 = \<lparr>
     filesys = fs0,
     toks = tk0,
     conv_get_prompt = (\<lambda>template message. message),
     cv2_imread = (\<lambda>p. if p = ''/data/images/c1/t1/f.jpeg'' then Some bgr0 else None),
     apply_image = (\<lambda>size img. img),
     model_evaluate = (\<lambda>prompt img tensor. Inr (''[SEG]'', [[], [plane0]]))\<rparr>"

definition args0 :: args where
  "args0 = \<lparr>folder_path = ''/data'', prompt_number = 3, use_mm_start_end = True,
             conv_type = ''llava_v1'', image_size = 1024\<rparr>"

section \<open>Properties\<close>

subsection \<open>Replacement, piece by piece\<close>

lemma str_replace_Nil: "old \<noteq> [] \<Longrightarrow> str_replace old new [] = []"
  by (simp add: str_replace.simps)

lemma str_replace_match:
  "old \<noteq> [] \<Longrightarrow> str_replace old new (old @ s) = new @ str_replace old new s"
  by (subst str_replace.simps) simp

lemma str_replace_skip:
  "old \<noteq> [] \<Longrightarrow> \<not> prefix old (c # s) \<Longrightarrow>
   str_replace old new (c # s) = c # str_replace old new s"
  by (subst str_replace.simps) simp

lemma str_replace_absent:
  "old \<noteq> [] \<Longrightarrow> \<not> sublist old s \<Longrightarrow> str_replace old new s = s"
proof (induction s)
  case Nil
  then show ?case by (simp add: str_replace_Nil)
next
  case (Cons c s)
  from Cons.prems have "\<not> prefix old (c # s)" and "\<not> sublist old s"
    by (simp_all add: sublist_Cons_right)
  with Cons show ?case by (simp add: str_replace_skip)
qed

lemma prefix_straddle:
  assumes "old \<noteq> []" and "prefix old ((c # p) @ old @ s)"
  shows "sublist old ((c # p) @ butlast old)"
proof -
  have len: "length old \<le> length ((c # p) @ butlast old)"
    by simp
  from assms(2) have "old = take (length old) ((c # p) @ old @ s)"
    by (metis append_eq_conv_conj prefixE)
  also have "(c # p) @ old @ s = ((c # p) @ butlast old) @ (last old # s)"
    using assms(1) by simp
  also have "take (length old) \<dots> = take (length old) ((c # p) @ butlast old)"
    using len by (simp del: append_assoc append.simps)
  finally have "prefix old ((c # p) @ butlast old)"
    by (metis take_is_prefix)
  then show ?thesis
    by (metis prefixE sublist_append_rightI)
qed

lemma str_replace_part:
  assumes "old \<noteq> []" and "\<not> sublist old (p @ butlast old)"
  shows "str_replace old new (p @ old @ s) = p @ new @ str_replace old new s"
  using assms(2)
proof (induction p)
  case Nil
  then show ?case by (simp add: str_replace_match assms(1))
next
  case (Cons c p)
  have np: "\<not> prefix old (c # (p @ old @ s))"
    using prefix_straddle [OF assms(1), of c p s] Cons.prems by auto
  have "\<not> sublist old (p @ butlast old)"
    using Cons.prems by (simp add: sublist_Cons_right)
  with Cons.IH np show ?case
    by (simp add: str_replace_skip assms(1))
qed

lemma str_replace_parts:
  "old \<noteq> [] \<Longrightarrow> leftmost_parts old parts \<Longrightarrow>
   str_replace old new (str_join old parts) = str_join new parts"
proof (induction old parts rule: leftmost_parts.induct)
  case (1 old)
  then show ?case by simp
next
  case (2 old p)
  then show ?case by (simp add: str_replace_absent)
next
  case (3 old p q ps)
  then show ?case by (simp add: str_replace_part)
qed

subsection \<open>Splitting finds the parts\<close>

lemma str_split_nonempty: "str_split sep s \<noteq> []"
  by (induction sep s rule: str_split.induct) (subst str_split.simps, simp split: list.splits)

lemma not_sublist_butlast: "old \<noteq> [] \<Longrightarrow> \<not> sublist old (butlast old)"
  by (metis length_butlast sublist_length_le diff_less length_greater_0_conv less_one not_less)

lemma str_join_Cons_char: "ps \<noteq> [] \<Longrightarrow> str_join sep ((c # p) # tl ps) = c # str_join sep (p # tl ps)"
  by (cases "tl ps") simp_all

lemma str_split_spec:
  "old \<noteq> [] \<Longrightarrow> str_join old (str_split old s) = s \<and> leftmost_parts old (str_split old s)"
proof (induction old s rule: str_split.induct)
  case (1 sep s)
  show ?case
  proof (cases "s = []")
    case True
    with 1 show ?thesis by (simp add: str_split.simps)
  next
    case ne: False
    show ?thesis
    proof (cases "prefix sep s")
      case True
      then obtain r where s: "s = sep @ r" by (auto simp: prefix_def)
      obtain q qs where sp: "str_split sep r = q # qs"
        using str_split_nonempty [of sep r] by (cases "str_split sep r") auto
      have eq: "str_split sep s = [] # q # qs"
        using 1(3) ne True s sp by (subst str_split.simps) simp
      have IH: "str_join sep (q # qs) = r \<and> leftmost_parts sep (q # qs)"
        using 1(1) [OF 1(3) ne True] 1(3) s sp by simp
      have "str_join sep ([] # q # qs) = s \<and> leftmost_parts sep ([] # q # qs)"
        using IH s 1(3) by (simp add: not_sublist_butlast)
      then show ?thesis by (simp only: eq)
    next
      case False
      obtain c r where s: "s = c # r" using ne by (cases s) auto
      obtain p ps where sp: "str_split sep r = p # ps"
        using str_split_nonempty [of sep r] by (cases "str_split sep r") auto
      have eq: "str_split sep s = (c # p) # ps"
        using 1(3) ne False s sp by (subst str_split.simps) simp
      have IH: "str_join sep (p # ps) = r \<and> leftmost_parts sep (p # ps)"
        using 1(2) [OF 1(3) ne False] 1(3) s sp by simp
      show ?thesis
      proof (cases ps)
        case Nil
        with IH s False
        have "str_join sep ((c # p) # ps) = s \<and> leftmost_parts sep ((c # p) # ps)"
          by (auto simp: sublist_Cons_right)
        then show ?thesis by (simp only: eq)
      next
        case (Cons q qs)
        have "\<not> prefix sep (c # p @ butlast sep)"
        proof
          assume "prefix sep (c # p @ butlast sep)"
          moreover have "prefix (c # p @ butlast sep) (c # p @ sep @ str_join sep (q # qs))"
            using 1(3) by (metis Cons_prefix_Cons same_prefix_prefix prefix_prefix prefixeq_butlast)
          ultimately have "prefix sep (c # p @ sep @ str_join sep (q # qs))"
            by (rule prefix_order.order_trans)
          with False s IH Cons show False by simp
        qed
        with IH s Cons
        have "str_join sep ((c # p) # ps) = s \<and> leftmost_parts sep ((c # p) # ps)"
          by (auto simp: sublist_Cons_right)
        then show ?thesis by (simp only: eq)
      qed
    qed
  qed
qed

subsection \<open>Conversation builder\<close>

text \<open>
  C9. For every instruction text and either value of the wrapper flag, the user turn is
  the image token, a newline and the instruction; with the flag set, every image token
  of that string is replaced by start marker, image token, end marker. The string is
  cut at the image tokens that a scan from the left finds (such a cut always exists),
  and the result is the same pieces joined by the three-token sequence. The image token
  is a parameter and must not be the empty string.
\<close>

theorem user_turn_wraps_every_token:
  assumes "DEFAULT_IMAGE_TOKEN tk \<noteq> []"
  shows "user_turn tk False prompt = DEFAULT_IMAGE_TOKEN tk @ LF @ prompt \<and>
    (\<exists>parts. DEFAULT_IMAGE_TOKEN tk @ LF @ prompt = str_join (DEFAULT_IMAGE_TOKEN tk) parts
        \<and> leftmost_parts (DEFAULT_IMAGE_TOKEN tk) parts) \<and>
    (\<forall>parts. DEFAULT_IMAGE_TOKEN tk @ LF @ prompt = str_join (DEFAULT_IMAGE_TOKEN tk) parts
        \<and> leftmost_parts (DEFAULT_IMAGE_TOKEN tk) parts \<longrightarrow>
      user_turn tk True prompt =
        str_join (DEFAULT_IM_START_TOKEN tk @ DEFAULT_IMAGE_TOKEN tk @ DEFAULT_IM_END_TOKEN tk) parts)"
proof (intro conjI allI impI)
  show "user_turn tk False prompt = DEFAULT_IMAGE_TOKEN tk @ LF @ prompt"
    by (simp add: user_turn_def)
next
  show "\<exists>parts. DEFAULT_IMAGE_TOKEN tk @ LF @ prompt = str_join (DEFAULT_IMAGE_TOKEN tk) parts
        \<and> leftmost_parts (DEFAULT_IMAGE_TOKEN tk) parts"
    using str_split_spec [OF assms, of "DEFAULT_IMAGE_TOKEN tk @ LF @ prompt"]
    by (intro exI [of _ "str_split (DEFAULT_IMAGE_TOKEN tk) (DEFAULT_IMAGE_TOKEN tk @ LF @ prompt)"]) simp
next
  fix parts
  assume "DEFAULT_IMAGE_TOKEN tk @ LF @ prompt = str_join (DEFAULT_IMAGE_TOKEN tk) parts
        \<and> leftmost_parts (DEFAULT_IMAGE_TOKEN tk) parts"
  then show "user_turn tk True prompt =
        str_join (DEFAULT_IM_START_TOKEN tk @ DEFAULT_IMAGE_TOKEN tk @ DEFAULT_IM_END_TOKEN tk) parts"
    using str_replace_parts [OF assms, of parts]
    by (simp add: user_turn_def)
qed

theorem user_turn_wraps_every_token_witness:
  "DEFAULT_IMAGE_TOKEN tk0 \<noteq> [] \<and>
   user_turn tk0 False ''a<image>b'' = ''<image>'' @ LF @ ''a<image>b'' \<and>
   user_turn tk0 True ''a<image>b'' =
     ''<im_start><image><im_end>'' @ LF @ ''a<im_start><image><im_end>b''"
proof -
  have ne: "DEFAULT_IMAGE_TOKEN tk0 \<noteq> []"
    by (simp add: tk0_def)
  have parts: "DEFAULT_IMAGE_TOKEN tk0 @ LF @ ''a<image>b'' =
      str_join (DEFAULT_IMAGE_TOKEN tk0) [[], LF @ ''a'', ''b''] \<and>
      leftmost_parts (DEFAULT_IMAGE_TOKEN tk0) [[], LF @ ''a'', ''b'']"
    by (simp add: tk0_def sublist_Cons_right)
  from user_turn_wraps_every_token [OF ne, of "''a<image>b''"] parts
  have "user_turn tk0 False ''a<image>b'' = DEFAULT_IMAGE_TOKEN tk0 @ LF @ ''a<image>b''"
    and "user_turn tk0 True ''a<image>b'' =
      str_join (DEFAULT_IM_START_TOKEN tk0 @ DEFAULT_IMAGE_TOKEN tk0 @ DEFAULT_IM_END_TOKEN tk0)
        [[], LF @ ''a'', ''b'']"
    by blast+
  then show ?thesis
    by (simp add: tk0_def)
qed

subsection \<open>The label clip path\<close>

text \<open>
  C10. The label clip path is the image clip path with every occurrence of
  \<open>/images/\<close> replaced by \<open>/labels/\<close>, wherever in the path it stands: the path is
  cut at the occurrences that a scan from the left finds (such a cut always exists) and
  the pieces are joined by \<open>/labels/\<close>. In the example the root itself lies below a
  directory \<open>images\<close>, and both occurrences are replaced.
\<close>

theorem label_clip_path_replaces_every_occurrence:
  "(\<exists>parts. image_clip_path = str_join ''/images/'' parts \<and> leftmost_parts ''/images/'' parts) \<and>
   (\<forall>parts. image_clip_path = str_join ''/images/'' parts \<and> leftmost_parts ''/images/'' parts \<longrightarrow>
      label_clip_path image_clip_path = str_join ''/labels/'' parts)"
proof (intro conjI allI impI)
  show "\<exists>parts. image_clip_path = str_join ''/images/'' parts \<and> leftmost_parts ''/images/'' parts"
    using str_split_spec [of "''/images/''" image_clip_path]
    by (intro exI [of _ "str_split ''/images/'' image_clip_path"]) simp
next
  fix parts
  assume "image_clip_path = str_join ''/images/'' parts \<and> leftmost_parts ''/images/'' parts"
  then show "label_clip_path image_clip_path = str_join ''/labels/'' parts"
    using str_replace_parts [of "''/images/''" parts "''/labels/''"]
    by (simp add: label_clip_path_def)
qed

theorem label_clip_path_replaces_every_occurrence_witness:
  "label_clip_path ''/data/images/set1/images/c1'' = ''/data/labels/set1/labels/c1''"
proof -
  have "''/data/images/set1/images/c1'' = str_join ''/images/'' [''/data'', ''set1'', ''c1''] \<and>
      leftmost_parts ''/images/'' [''/data'', ''set1'', ''c1'']"
    by (simp add: sublist_Cons_right)
  with label_clip_path_replaces_every_occurrence [of "''/data/images/set1/images/c1''"]
  have "label_clip_path ''/data/images/set1/images/c1'' =
      str_join ''/labels/'' [''/data'', ''set1'', ''c1'']"
    by blast
  then show ?thesis by simp
qed

subsection \<open>Backbone transform\<close>

lemma is_chw_nth:
  "is_chw n h w x \<longleftrightarrow>
     length x = n \<and> (\<forall>c<n. length (x ! c) = h \<and> (\<forall>i<h. length (x ! c ! i) = w))"
  unfolding is_chw_def by (auto simp: all_set_conv_all_nth)

lemma tensor_height_chw: "is_chw n h w x \<Longrightarrow> 0 < n \<Longrightarrow> tensor_height x = h"
  by (cases x) (auto simp: is_chw_def tensor_height_def)

lemma tensor_width_chw: "is_chw n h w x \<Longrightarrow> 0 < n \<Longrightarrow> 0 < h \<Longrightarrow> tensor_width x = w"
  by (cases x; cases "hd x") (auto simp: is_chw_def tensor_width_def)

lemma broadcast_channels_chw:
  assumes "is_chw n h w x" and "length ks = n"
  shows "\<exists>y. broadcast_channels f x ks = Inr y \<and> is_chw n h w y \<and>
           (\<forall>c<n. \<forall>i<h. \<forall>j<w. y ! c ! i ! j = f (x ! c ! i ! j) (ks ! c))"
  using assms by (simp add: broadcast_channels_def is_chw_nth)

lemma length_pad_end:
  "0 \<le> int (length xs) + p \<Longrightarrow> length (pad_end p z xs) = nat (int (length xs) + p)"
  by (auto simp: pad_end_def min_def nat_add_distrib)

lemma nth_pad_end:
  "i < nat (int (length xs) + p) \<Longrightarrow> pad_end p z xs ! i = (if i < length xs then xs ! i else z)"
  by (auto simp: pad_end_def nth_append)

lemma F_pad_chw:
  assumes x: "is_chw n h w x" and n: "0 < n" and h: "0 < h"
    and nh: "0 \<le> int h + padh" and nw: "0 \<le> int w + padw"
  shows "\<exists>y. F_pad x padw padh = Inr y \<and> is_chw n (nat (int h + padh)) (nat (int w + padw)) y \<and>
           (\<forall>c<n. \<forall>i<nat (int h + padh). \<forall>j<nat (int w + padw).
              y ! c ! i ! j = (if i < h \<and> j < w then x ! c ! i ! j else 0))"
proof -
  let ?row = "replicate (nat (int w + padw)) (0::'a)"
  let ?y = "map (\<lambda>c. pad_end padh ?row (map (pad_end padw 0) c)) x"
  have eq: "F_pad x padw padh = Inr ?y"
    using nh nw tensor_height_chw [OF x n] tensor_width_chw [OF x n h]
    by (simp add: F_pad_def)
  from x have lx: "length x = n"
    and lc: "\<And>c. c < n \<Longrightarrow> length (x ! c) = h"
    and lr: "\<And>c i. c < n \<Longrightarrow> i < h \<Longrightarrow> length (x ! c ! i) = w"
    by (simp_all add: is_chw_nth)
  have rows: "length (?y ! c) = nat (int h + padh)" if "c < n" for c
    using that lx lc nh by (simp add: length_pad_end)
  have row: "?y ! c ! i = (if i < h then pad_end padw 0 (x ! c ! i) else ?row)"
    if "c < n" "i < nat (int h + padh)" for c i
    using that lx lc by (simp add: nth_pad_end)
  have cols: "length (?y ! c ! i) = nat (int w + padw)"
    if "c < n" "i < nat (int h + padh)" for c i
    using that lr nw by (simp add: row length_pad_end)
  have elt: "?y ! c ! i ! j = (if i < h \<and> j < w then x ! c ! i ! j else 0)"
    if "c < n" "i < nat (int h + padh)" "j < nat (int w + padw)" for c i j
    using that lr by (simp add: row nth_pad_end)
  have "is_chw n (nat (int h + padh)) (nat (int w + padw)) ?y"
    unfolding is_chw_nth using lx rows cols by simp
  with eq elt show ?thesis by blast
qed

lemma preprocess_chw:
  fixes x :: "'a::{zero,minus,inverse} tensor3"
  assumes x: "is_chw 3 h w x" and h: "0 < h" and t: "0 \<le> t"
    and m: "length pixel_mean = 3" and s: "length pixel_std = 3"
  shows "\<exists>y. preprocess x pixel_mean pixel_std t = Inr y \<and> is_chw 3 (nat t) (nat t) y \<and>
           (\<forall>c<3. \<forall>i<nat t. \<forall>j<nat t.
              y ! c ! i ! j =
                (if i < h \<and> j < w then (x ! c ! i ! j - pixel_mean ! c) / pixel_std ! c else 0))"
proof -
  obtain x1 where x1: "broadcast_channels (-) x pixel_mean = Inr x1" "is_chw 3 h w x1"
    "\<forall>c<3. \<forall>i<h. \<forall>j<w. x1 ! c ! i ! j = x ! c ! i ! j - pixel_mean ! c"
    using broadcast_channels_chw [OF x m, of "(-)"] by blast
  obtain x2 where x2: "broadcast_channels (/) x1 pixel_std = Inr x2" "is_chw 3 h w x2"
    "\<forall>c<3. \<forall>i<h. \<forall>j<w. x2 ! c ! i ! j = x1 ! c ! i ! j / pixel_std ! c"
    using broadcast_channels_chw [OF x1(2) s, of "(/)"] by blast
  have hw: "tensor_height x2 = h" "tensor_width x2 = w"
    using tensor_height_chw [OF x2(2)] tensor_width_chw [OF x2(2)] h by simp_all
  have pre: "preprocess x pixel_mean pixel_std t = F_pad x2 (t - int w) (t - int h)"
    by (simp add: preprocess_def x1(1) x2(1) hw)
  obtain y where y: "F_pad x2 (t - int w) (t - int h) = Inr y"
    "is_chw 3 (nat (int h + (t - int h))) (nat (int w + (t - int w))) y"
    "\<forall>c<3. \<forall>i<nat (int h + (t - int h)). \<forall>j<nat (int w + (t - int w)).
        y ! c ! i ! j = (if i < h \<and> j < w then x2 ! c ! i ! j else 0)"
    using F_pad_chw [OF x2(2) _ h, of "t - int h" "t - int w"] t by auto
  from y(2) have chw: "is_chw 3 (nat t) (nat t) y" by simp
  have "y ! c ! i ! j =
      (if i < h \<and> j < w then (x ! c ! i ! j - pixel_mean ! c) / pixel_std ! c else 0)"
    if "c < 3" "i < nat t" "j < nat t" for c i j
    using that y(3) x1(3) x2(3) by simp
  with pre y(1) chw show ?thesis by simp
qed

lemma preprocess_negative:
  fixes x :: "'a::{zero,minus,inverse} tensor3"
  assumes x: "is_chw 3 h w x" and h: "0 < h" and t: "t < 0"
    and m: "length pixel_mean = 3" and s: "length pixel_std = 3"
  shows "preprocess x pixel_mean pixel_std t = Inl RuntimeError"
proof -
  obtain x1 where x1: "broadcast_channels (-) x pixel_mean = Inr x1" "is_chw 3 h w x1"
    using broadcast_channels_chw [OF x m, of "(-)"] by blast
  obtain x2 where x2: "broadcast_channels (/) x1 pixel_std = Inr x2" "is_chw 3 h w x2"
    using broadcast_channels_chw [OF x1(2) s, of "(/)"] by blast
  have hw: "tensor_height x2 = h" "tensor_width x2 = w"
    using tensor_height_chw [OF x2(2)] tensor_width_chw [OF x2(2)] h by simp_all
  show ?thesis
    using t by (simp add: preprocess_def x1(1) x2(1) F_pad_def hw)
qed

text \<open>
  C2. For every image of three channels whose resized height \<open>h\<close> and width \<open>w\<close> are at
  most the target size, \<open>preprocess\<close> returns a tensor of target by target elements per
  channel; its top-left \<open>h\<close> by \<open>w\<close> region is the image, normalised per channel as
  (x - mean) / std, and every other element is zero.
\<close>

theorem preprocess_pads_to_square:
  fixes x :: "'a::{zero,minus,inverse} tensor3"
  assumes "is_chw 3 h w x" and "0 < h"
    and "int h \<le> img_size" and "int w \<le> img_size"
    and "length pixel_mean = 3" and "length pixel_std = 3"
  shows "\<exists>y. preprocess x pixel_mean pixel_std img_size = Inr y \<and>
           is_chw 3 (nat img_size) (nat img_size) y \<and>
           (\<forall>c<3. \<forall>i<nat img_size. \<forall>j<nat img_size.
              y ! c ! i ! j =
                (if i < h \<and> j < w then (x ! c ! i ! j - pixel_mean ! c) / pixel_std ! c else 0))"
  using assms by (intro preprocess_chw) simp_all

theorem preprocess_pads_to_square_witness:
  "is_chw 3 1 2 tensor_1x2 \<and>
   (\<exists>y. preprocess tensor_1x2 pixel_mean_default pixel_std_default 2 = Inr y \<and>
        is_chw 3 2 2 y \<and>
        y ! 0 ! 0 ! 1 = (200 - 123.675) / 58.395 \<and>
        y ! 2 ! 0 ! 0 = (7 - 103.53) / 57.375 \<and>
        y ! 1 ! 1 ! 0 = 0 \<and> y ! 1 ! 1 ! 1 = 0)"
proof -
  have chw: "is_chw 3 1 2 tensor_1x2"
    by (simp add: is_chw_def tensor_1x2_def)
  from preprocess_pads_to_square [OF chw, of 2 pixel_mean_default pixel_std_default]
  obtain y where y: "preprocess tensor_1x2 pixel_mean_default pixel_std_default 2 = Inr y"
      "is_chw 3 2 2 y"
    and el: "\<forall>c<3. \<forall>i<2. \<forall>j<2. y ! c ! i ! j =
          (if i < 1 \<and> j < 2
           then (tensor_1x2 ! c ! i ! j - pixel_mean_default ! c) / pixel_std_default ! c
           else 0)"
    by (auto simp: pixel_mean_default_def pixel_std_default_def)
  have "y ! 0 ! 0 ! 1 = (200 - 123.675) / 58.395"
    using el [rule_format, of 0 0 1]
    by (simp add: tensor_1x2_def pixel_mean_default_def pixel_std_default_def)
  moreover have "y ! 2 ! 0 ! 0 = (7 - 103.53) / 57.375"
    using el [rule_format, of 2 0 0]
    by (simp add: tensor_1x2_def pixel_mean_default_def pixel_std_default_def)
  moreover have "y ! 1 ! 1 ! 0 = 0" "y ! 1 ! 1 ! 1 = 0"
    using el [rule_format, of 1 1 0] el [rule_format, of 1 1 1] by simp_all
  ultimately show ?thesis
    using chw y by blast
qed

text \<open>
  C4, as stated, fails: for a 2 by 2 image and target size 1 the transform does not
  raise; it returns the normalised top-left 1 by 1 corner, so content is cropped.
\<close>

theorem preprocess_oversized_counterexample:
  "tensor_height tensor_2x2 = 2 \<and> tensor_width tensor_2x2 = 2 \<and>
   preprocess tensor_2x2 pixel_mean_default pixel_std_default 1
    = Inr [[[(10 - 123.675) / 58.395]], [[(50 - 116.28) / 57.12]], [[(90 - 103.53) / 57.375]]]"
  by (simp add: preprocess_def broadcast_channels_def F_pad_def tensor_height_def tensor_width_def
        pad_end_def pixel_mean_default_def pixel_std_default_def tensor_2x2_def)

text \<open>
  C4, amended. For every image whose height or width after the resize step exceeds the
  target size, \<open>preprocess\<close> does not fail as long as the target size is not negative:
  it returns a tensor of target by target elements per channel that holds the normalised
  image at every position inside the image and zero elsewhere, so the rows and columns
  beyond the target size are cut off. It raises only for a negative target size.
\<close>

theorem preprocess_crops_oversized:
  fixes x :: "'a::{zero,minus,inverse} tensor3"
  assumes "is_chw 3 h w x" and "0 < h"
    and "img_size < int h \<or> img_size < int w"
    and "length pixel_mean = 3" and "length pixel_std = 3"
  shows "(img_size < 0 \<longrightarrow> preprocess x pixel_mean pixel_std img_size = Inl RuntimeError) \<and>
         (0 \<le> img_size \<longrightarrow>
           (\<exists>y. preprocess x pixel_mean pixel_std img_size = Inr y \<and>
              is_chw 3 (nat img_size) (nat img_size) y \<and>
              (\<forall>c<3. \<forall>i<nat img_size. \<forall>j<nat img_size.
                 y ! c ! i ! j =
                   (if i < h \<and> j < w then (x ! c ! i ! j - pixel_mean ! c) / pixel_std ! c
                    else 0))))"
  using assms preprocess_chw [of h w x img_size pixel_mean pixel_std]
    preprocess_negative [of h w x img_size pixel_mean pixel_std]
  by blast

theorem preprocess_crops_oversized_witness:
  "is_chw 3 2 2 tensor_2x2 \<and>
   (\<exists>y. preprocess tensor_2x2 pixel_mean_default pixel_std_default 1 = Inr y \<and>
        is_chw 3 1 1 y \<and> y ! 0 ! 0 ! 0 = (10 - 123.675) / 58.395)"
proof -
  have chw: "is_chw 3 2 2 tensor_2x2"
    by (simp add: is_chw_def tensor_2x2_def)
  from preprocess_crops_oversized [OF chw, of 1 pixel_mean_default pixel_std_default]
  obtain y where y: "preprocess tensor_2x2 pixel_mean_default pixel_std_default 1 = Inr y"
      "is_chw 3 1 1 y"
    and el: "\<forall>c<3. \<forall>i<1. \<forall>j<1. y ! c ! i ! j =
          (if i < 2 \<and> j < 2
           then (tensor_2x2 ! c ! i ! j - pixel_mean_default ! c) / pixel_std_default ! c
           else 0)"
    by (auto simp: pixel_mean_default_def pixel_std_default_def)
  have "y ! 0 ! 0 ! 0 = (10 - 123.675) / 58.395"
    using el [rule_format, of 0 0 0]
    by (simp add: tensor_2x2_def pixel_mean_default_def pixel_std_default_def)
  then show ?thesis
    using chw y by blast
qed

subsection \<open>Mask postprocessor\<close>

lemma gray_mask_nth:
  "y < length m \<Longrightarrow> x < length (m ! y) \<Longrightarrow>
   gray_mask (binarize m) ! y ! x = (if 0 < m ! y ! x then 255 else 0)"
  by (simp add: gray_mask_def binarize_def)

lemma gray_mask_shape: "map length (gray_mask (binarize m)) = map length m"
  by (simp add: gray_mask_def binarize_def)

lemma raster_empty_shape: "map length a = map length b \<Longrightarrow> raster_empty a = raster_empty b"
  by (cases a; cases b) (auto simp: raster_empty_def)

lemma raster_empty_gray_mask: "raster_empty (gray_mask (binarize m)) = raster_empty m"
  by (rule raster_empty_shape) (rule gray_mask_shape)

text \<open>A first plane without rows or columns: the loop body raises and does nothing else.\<close>

lemma save_mask_empty_plane:
  "raster_empty m \<Longrightarrow> save_mask pd bn pn image_np i (m # ms) = ([], Some CvError)"
  by (simp add: save_mask_def raster_empty_gray_mask)

text \<open>
  C5. For every non-empty predicted mask whose first plane \<open>m\<close> has at least one row
  and one column (for any other plane nothing is saved, see above), the first thing the
  loop body does is to write the gray raster to the mask path; the raster has the shape
  of the plane, and each of its pixels is 255 where the score is greater than 0 and 0
  everywhere else, so it holds no other value.
\<close>

theorem saved_mask_is_0_or_255:
  assumes "\<not> raster_empty m"
  shows "(\<exists>rest r. save_mask pd bn pn image_np i (m # ms) =
            (Imwrite_gray (mask_path pd bn i pn) (gray_mask (binarize m)) # rest, r)) \<and>
         map length (gray_mask (binarize m)) = map length m \<and>
         (\<forall>y<length m. \<forall>x<length (m ! y).
            gray_mask (binarize m) ! y ! x = (if 0 < m ! y ! x then 255 else 0))"
proof (intro conjI allI impI)
  show "\<exists>rest r. save_mask pd bn pn image_np i (m # ms) =
            (Imwrite_gray (mask_path pd bn i pn) (gray_mask (binarize m)) # rest, r)"
    using assms
    by (auto simp: save_mask_def Let_def raster_empty_gray_mask split: sum.splits)
next
  show "map length (gray_mask (binarize m)) = map length m"
    by (rule gray_mask_shape)
next
  fix y x
  assume "y < length m" and "x < length (m ! y)"
  then show "gray_mask (binarize m) ! y ! x = (if 0 < m ! y ! x then 255 else 0)"
    by (rule gray_mask_nth)
qed

theorem saved_mask_is_0_or_255_witness:
  "\<not> raster_empty plane0 \<and>
   (\<exists>rest r. save_mask ''/d'' ''f'' 3 (cvtColor bgr0) 1 [plane0] =
      (Imwrite_gray (mask_path ''/d'' ''f'' 1 3) (gray_mask (binarize plane0)) # rest, r)) \<and>
   gray_mask (binarize plane0) = [[0, 255], [0, 255]]"
proof -
  have ne: "\<not> raster_empty plane0"
    by (simp add: raster_empty_def plane0_def)
  have wr: "\<exists>rest r. save_mask ''/d'' ''f'' 3 (cvtColor bgr0) 1 [plane0] =
      (Imwrite_gray (mask_path ''/d'' ''f'' 1 3) (gray_mask (binarize plane0)) # rest, r)"
    and el: "\<forall>y<length plane0. \<forall>x<length (plane0 ! y).
      gray_mask (binarize plane0) ! y ! x = (if 0 < plane0 ! y ! x then 255 else 0)"
    and sh: "map length (gray_mask (binarize plane0)) = map length plane0"
    using saved_mask_is_0_or_255 [OF ne, of "''/d''" "''f''" 3 "cvtColor bgr0" 1 "[]"]
    by blast+
  have "length (gray_mask (binarize plane0)) = 2"
    using arg_cong [OF sh, of length] by (simp add: plane0_def)
  moreover have "length (gray_mask (binarize plane0) ! 0) = 2" "length (gray_mask (binarize plane0) ! 1) = 2"
    using arg_cong [OF sh, of "\<lambda>l. l ! 0"] arg_cong [OF sh, of "\<lambda>l. l ! 1"] calculation
    by (simp_all add: plane0_def)
  moreover have "gray_mask (binarize plane0) ! 0 ! 0 = 0" "gray_mask (binarize plane0) ! 0 ! 1 = 255"
     "gray_mask (binarize plane0) ! 1 ! 0 = 0" "gray_mask (binarize plane0) ! 1 ! 1 = 255"
    using el [rule_format, of 0 0] el [rule_format, of 0 1] el [rule_format, of 1 0] el [rule_format, of 1 1]
    by (simp_all add: plane0_def)
  ultimately have "gray_mask (binarize plane0) = [[0, 255], [0, 255]]"
    by (auto simp: list_eq_iff_nth_eq less_Suc_eq numeral_2_eq_2)
  with ne wr show ?thesis
    by blast
qed

lemma to_uint8_blend_True:
  assumes "0 \<le> k"
  shows "to_uint8 (blend v True (int k)) = word_of_nat ((unat v + k) div 2)"
proof -
  have "blend v True (int k) = real_of_int (int (unat v + k)) / real_of_int 2"
    by (simp add: blend_def field_simps)
  then have fl: "\<lfloor>blend v True (int k)\<rfloor> = int (unat v + k) div 2"
    by (simp only: floor_divide_of_int_eq)
  have "0 \<le> real (unat v) * 0.5"
    by (simp only: of_nat_0_le_iff mult_nonneg_nonneg)
  moreover have "0 \<le> real_of_int (int (unat (of_bool True :: 8 word)) * int k) * 0.5"
    by simp
  ultimately have "0 \<le> blend v True (int k)"
    unfolding blend_def by (rule add_nonneg_nonneg)
  then have "to_uint8 (blend v True (int k)) = word_of_int (int (unat v + k) div 2)"
    by (simp add: to_uint8_def fl)
  also have "int (unat v + k) div 2 = int ((unat v + k) div 2)"
    by (simp add: zdiv_int)
  finally show ?thesis by simp
qed

lemma overlay_pixel_swapped:
  "(\<lambda>(c0, c1, c2). (c2, c1, c0)) (overlay_pixel ((\<lambda>(c0, c1, c2). (c2, c1, c0)) p) b) =
     (if b then red_blend p else p)"
proof (cases p)
  case (fields c0 c1 c2)
  have "to_uint8 (blend c2 True 255) = word_of_nat ((unat c2 + 255) div 2)"
    "to_uint8 (blend c1 True 0) = word_of_nat ((unat c1 + 0) div 2)"
    "to_uint8 (blend c0 True 0) = word_of_nat ((unat c0 + 0) div 2)"
    using to_uint8_blend_True [of 255 c2] to_uint8_blend_True [of 0 c1]
      to_uint8_blend_True [of 0 c0] by simp_all
  then show ?thesis
    by (simp add: fields overlay_pixel_def red_blend_def)
qed

lemma overlay_same_shape:
  assumes "map length m = map length bgr"
  shows "overlay (cvtColor bgr) (binarize m) =
     Inr (map (\<lambda>(row, mrow). map (\<lambda>(p, b). overlay_pixel p b) (zip row mrow))
            (zip (cvtColor bgr) (binarize m)))"
  using assms by (simp add: overlay_def cvtColor_def binarize_def comp_def)

lemma written_overlay:
  assumes sh: "map length m = map length bgr"
  shows "\<exists>ov. overlay (cvtColor bgr) (binarize m) = Inr ov \<and>
           map length (cvtColor ov) = map length bgr \<and>
           (\<forall>y<length bgr. \<forall>x<length (bgr ! y).
              cvtColor ov ! y ! x = (if 0 < m ! y ! x then red_blend (bgr ! y ! x) else bgr ! y ! x))"
proof -
  let ?ov = "map (\<lambda>(row, mrow). map (\<lambda>(p, b). overlay_pixel p b) (zip row mrow))
            (zip (cvtColor bgr) (binarize m))"
  have len: "length m = length bgr"
    using sh by (rule map_eq_imp_length_eq)
  have row: "length (m ! y) = length (bgr ! y)" if "y < length bgr" for y
    using that len arg_cong [OF sh, of "\<lambda>l. l ! y"] by simp
  have shape: "map length (cvtColor ?ov) = map length bgr"
    using len row by (auto simp: cvtColor_def binarize_def list_eq_iff_nth_eq)
  have "cvtColor ?ov ! y ! x = (if 0 < m ! y ! x then red_blend (bgr ! y ! x) else bgr ! y ! x)"
    if "y < length bgr" "x < length (bgr ! y)" for y x
    using that len row [OF that(1)] overlay_pixel_swapped [of "bgr ! y ! x" "0 < m ! y ! x"]
    by (simp add: cvtColor_def binarize_def)
  with shape overlay_same_shape [OF sh] show ?thesis by blast
qed

lemma map_length_cvtColor: "map length (cvtColor img) = map length img"
  by (simp add: cvtColor_def comp_def)

text \<open>
  C6. For every non-empty predicted mask whose first plane has the height and width of
  the image, the image having at least one row and one column, the loop body writes the
  gray mask and then the overlay; the overlay has the shape of the image that was read,
  equals it at every pixel where the score is not greater than 0, and is the 50/50
  blend of that pixel with pure red, rounded down, where it is.
\<close>

theorem overlay_changes_only_masked_pixels:
  assumes "map length m = map length bgr" and "\<not> raster_empty bgr"
  shows "\<exists>ov. save_mask pd bn pn (cvtColor bgr) i (m # ms) =
           ([Imwrite_gray (mask_path pd bn i pn) (gray_mask (binarize m)),
             Print (mask_path pd bn i pn @ '' has been saved.''),
             Imwrite_bgr (masked_img_path pd bn i pn) ov,
             Print (masked_img_path pd bn i pn @ '' has been saved.'')], None) \<and>
           map length ov = map length bgr \<and>
           (\<forall>y<length bgr. \<forall>x<length (bgr ! y).
              ov ! y ! x = (if 0 < m ! y ! x then red_blend (bgr ! y ! x) else bgr ! y ! x))"
proof -
  from written_overlay [OF assms(1)] obtain ov0
    where ov0: "overlay (cvtColor bgr) (binarize m) = Inr ov0"
      and sh: "map length (cvtColor ov0) = map length bgr"
      and el: "\<forall>y<length bgr. \<forall>x<length (bgr ! y).
              cvtColor ov0 ! y ! x = (if 0 < m ! y ! x then red_blend (bgr ! y ! x) else bgr ! y ! x)"
    by blast
  have "\<not> raster_empty (gray_mask (binarize m))"
    using assms raster_empty_shape [of m bgr] by (simp add: raster_empty_gray_mask)
  moreover have "\<not> raster_empty ov0"
    using assms(2) sh raster_empty_shape [of ov0 bgr] by (simp add: map_length_cvtColor)
  ultimately have "save_mask pd bn pn (cvtColor bgr) i (m # ms) =
           ([Imwrite_gray (mask_path pd bn i pn) (gray_mask (binarize m)),
             Print (mask_path pd bn i pn @ '' has been saved.''),
             Imwrite_bgr (masked_img_path pd bn i pn) (cvtColor ov0),
             Print (masked_img_path pd bn i pn @ '' has been saved.'')], None)"
    by (simp add: save_mask_def ov0)
  with sh el show ?thesis
    by blast
qed


theorem overlay_changes_only_masked_pixels_witness:
  "map length plane0 = map length bgr0 \<and> \<not> raster_empty bgr0 \<and>
   (\<exists>ov. save_mask ''/d'' ''f'' 3 (cvtColor bgr0) 1 [plane0] =
           ([Imwrite_gray ''/d/f_LISA_mask_1_prompt3.png'' [[0, 255], [0, 255]],
             Print ''/d/f_LISA_mask_1_prompt3.png has been saved.'',
             Imwrite_bgr ''/d/f_LISA_masked_img_1_prompt3.png'' ov,
             Print ''/d/f_LISA_masked_img_1_prompt3.png has been saved.''], None) \<and>
         ov ! 0 ! 0 = (10, 20, 30) \<and> ov ! 0 ! 1 = (20, 25, 158) \<and>
         ov ! 1 ! 0 = (70, 80, 90) \<and> ov ! 1 ! 1 = (127, 127, 255))"
proof -
  have sh: "map length plane0 = map length bgr0"
    by (simp add: plane0_def bgr0_def)
  have ne: "\<not> raster_empty bgr0"
    by (simp add: raster_empty_def bgr0_def)
  from overlay_changes_only_masked_pixels [OF sh ne, where pd = "''/d''" and bn = "''f''" and pn = 3 and i = 1 and ms = "[]"]
  obtain ov where run: "save_mask ''/d'' ''f'' 3 (cvtColor bgr0) 1 [plane0] =
           ([Imwrite_gray (mask_path ''/d'' ''f'' 1 3) (gray_mask (binarize plane0)),
             Print (mask_path ''/d'' ''f'' 1 3 @ '' has been saved.''),
             Imwrite_bgr (masked_img_path ''/d'' ''f'' 1 3) ov,
             Print (masked_img_path ''/d'' ''f'' 1 3 @ '' has been saved.'')], None)"
    and el: "\<forall>y<length bgr0. \<forall>x<length (bgr0 ! y).
              ov ! y ! x = (if 0 < plane0 ! y ! x then red_blend (bgr0 ! y ! x) else bgr0 ! y ! x)"
    by blast
  have paths: "mask_path ''/d'' ''f'' 1 3 = ''/d/f_LISA_mask_1_prompt3.png''"
    "masked_img_path ''/d'' ''f'' 1 3 = ''/d/f_LISA_masked_img_1_prompt3.png''"
    by (simp_all add: mask_path_def masked_img_path_def str_int_def str_nat.simps digit_char_def)
  have gray: "gray_mask (binarize plane0) = [[0, 255], [0, 255]]"
    by (simp add: gray_mask_def binarize_def plane0_def)
  have "ov ! 0 ! 0 = (10, 20, 30)" "ov ! 0 ! 1 = (20, 25, 158)"
    "ov ! 1 ! 0 = (70, 80, 90)" "ov ! 1 ! 1 = (127, 127, 255)"
    using el [rule_format, of 0 0] el [rule_format, of 0 1] el [rule_format, of 1 0]
      el [rule_format, of 1 1]
    by (simp_all add: plane0_def bgr0_def red_blend_def)
  moreover note run [unfolded paths gray] sh ne
  ultimately show ?thesis
    by simp
qed

subsection \<open>Prompt registry\<close>

lemma dom_Prompts: "dom Prompts = {1, 2, 3, 4}"
  by (auto simp: Prompts_def split: if_splits)

lemma Prompts_getitem_known:
  "k \<in> {1, 2, 3, 4} \<Longrightarrow> \<exists>p. Prompts_getitem k = Inr p"
  using dom_Prompts by (auto simp: Prompts_getitem_def split: option.splits)

text \<open>
  C3. The prompt registry has the keys 1, 2, 3 and 4. For every other prompt id the
  lookup raises (Python's KeyError, which nothing catches: it is the configuration
  error of the specification), and the run ends at line 223 with that error, after the
  pairs were collected and before any pair is processed.
\<close>

theorem unknown_prompt_id_fails:
  assumes "prompt_number a \<notin> {1, 2, 3, 4}"
  shows "dom Prompts = {1, 2, 3, 4} \<and>
         Prompts_getitem (prompt_number a) = Inl (KeyError (prompt_number a)) \<and>
         main ev a =
           (case collect_pairs (filesys ev) (folder_path a) of
              Inl e \<Rightarrow> ([], Some e)
            | Inr pairs \<Rightarrow> ([Print_pairs pairs], Some (KeyError (prompt_number a))))"
proof -
  have "Prompts (prompt_number a) = None"
    using assms dom_Prompts by blast
  then have "Prompts_getitem (prompt_number a) = Inl (KeyError (prompt_number a))"
    by (simp add: Prompts_getitem_def)
  then show ?thesis
    by (simp add: main_def dom_Prompts split: sum.splits)
qed

theorem unknown_prompt_id_fails_witness:
  "prompt_number (args0\<lparr>prompt_number := 5\<rparr>) \<notin> {1, 2, 3, 4} \<and>
   Prompts_getitem 5 = Inl (KeyError 5) \<and>
   snd (main env0 (args0\<lparr>prompt_number := 5\<rparr>)) \<noteq> None"
  using unknown_prompt_id_fails [of "args0\<lparr>prompt_number := 5\<rparr>" env0]
  by (simp add: args0_def split: sum.splits)

subsection \<open>Missing images\<close>

text \<open>
  C8. For every pair whose image path does not exist when the loop reaches it (the
  prompt id being one of the registry, or the loop would not have been entered), the
  loop body prints the two lines "Processing image" and "File not found", writes
  nothing and raises nothing, and the loop goes on with the remaining pairs.
\<close>

theorem missing_image_is_skipped:
  assumes "\<not> os_exists (filesys ev) img_path" and "prompt_number a \<in> {1, 2, 3, 4}"
  shows "process_pair ev a (img_path, lbl_path) =
           ([Print (''Processing image: '' @ img_path @ '' '' @ lbl_path),
             Print (''File not found in '' @ img_path)], None) \<and>
         pairs_loop ev a ((img_path, lbl_path) # rest) =
           (case pairs_loop ev a rest of
              (es, r) \<Rightarrow>
                ([Print (''Processing image: '' @ img_path @ '' '' @ lbl_path),
                  Print (''File not found in '' @ img_path)] @ es, r))"
proof -
  obtain p where "Prompts_getitem (prompt_number a) = Inr p"
    using Prompts_getitem_known [OF assms(2)] by blast
  with assms(1) have "process_pair ev a (img_path, lbl_path) =
           ([Print (''Processing image: '' @ img_path @ '' '' @ lbl_path),
             Print (''File not found in '' @ img_path)], None)"
    by (simp add: process_pair_def)
  then show ?thesis by simp
qed

theorem missing_image_is_skipped_witness:
  "\<not> os_exists (filesys env0) ''/data/images/c1/t1/gone.jpeg'' \<and>
   prompt_number args0 \<in> {1, 2, 3, 4} \<and>
   pairs_loop env0 args0
     [(''/data/images/c1/t1/gone.jpeg'', ''/data/labels/c1/t1/gone.png''),
      (''/data/images/c1/t1/lost.jpeg'', ''/data/labels/c1/t1/lost.png'')] =
     ([Print ''Processing image: /data/images/c1/t1/gone.jpeg /data/labels/c1/t1/gone.png'',
       Print ''File not found in /data/images/c1/t1/gone.jpeg'',
       Print ''Processing image: /data/images/c1/t1/lost.jpeg /data/labels/c1/t1/lost.png'',
       Print ''File not found in /data/images/c1/t1/lost.jpeg''], None)"
proof -
  have gone: "\<not> os_exists (filesys env0) ''/data/images/c1/t1/gone.jpeg''"
    and lost: "\<not> os_exists (filesys env0) ''/data/images/c1/t1/lost.jpeg''"
    and key: "prompt_number args0 \<in> {1, 2, 3, 4}"
    by (simp_all add: env0_def fs0_def args0_def)
  show ?thesis
    using missing_image_is_skipped [OF gone key, of "''/data/labels/c1/t1/gone.png''"
        "[(''/data/images/c1/t1/lost.jpeg'', ''/data/labels/c1/t1/lost.png'')]"]
      missing_image_is_skipped [OF lost key, of "''/data/labels/c1/t1/lost.png''" "[]"]
      gone key
    by simp
qed

subsection \<open>Artifact names\<close>

lemma multi_dot_names:
  "parent_dir ''/data/labels/c1/t1/f.001.png'' = ''/data/labels/c1/t1''"
  "base_name ''/data/labels/c1/t1/f.001.png'' = ''f''"
  "base_name ''/data/labels/c1/t1/f.002.png'' = ''f''"
  "spec_base_name ''/data/labels/c1/t1/f.001.png'' = ''f.001''"
  "spec_base_name ''/data/labels/c1/t1/f.002.png'' = ''f.002''"
  by (code_simp+)

lemma sample_paths:
  "mask_path ''/data/labels/c1/t1'' ''f'' 1 3 = ''/data/labels/c1/t1/f_LISA_mask_1_prompt3.png''"
  "masked_img_path ''/data/labels/c1/t1'' ''f'' 1 3 =
     ''/data/labels/c1/t1/f_LISA_masked_img_1_prompt3.png''"
  by (simp_all add: mask_path_def masked_img_path_def str_int_def str_nat.simps digit_char_def)

lemma save_mask_no_error:
  assumes "p = [] \<or> map length (hd p) = map length bgr" and "\<not> raster_empty bgr"
  shows "snd (save_mask pd bn pn (cvtColor bgr) i p) = None"
proof (cases p)
  case Nil
  then show ?thesis by (simp add: save_mask_def)
next
  case (Cons m ms)
  with assms have sh: "map length m = map length bgr" by simp
  from written_overlay [OF this] obtain ov
    where ov: "overlay (cvtColor bgr) (binarize m) = Inr ov"
      and "map length (cvtColor ov) = map length bgr" by blast
  then have "\<not> raster_empty ov"
    using assms(2) raster_empty_shape [of ov bgr] by (simp add: map_length_cvtColor)
  moreover have "\<not> raster_empty (gray_mask (binarize m))"
    using assms(2) raster_empty_shape [OF sh] by (simp add: raster_empty_gray_mask)
  ultimately show ?thesis
    using Cons ov by (simp add: save_mask_def)
qed

lemma save_masks_keeps_indices:
  assumes "\<forall>p \<in> set preds. p = [] \<or> map length (hd p) = map length bgr"
    and ne: "\<not> raster_empty bgr"
  shows "save_masks pd bn pn (cvtColor bgr) i preds =
     (concat (map (\<lambda>(k, p). fst (save_mask pd bn pn (cvtColor bgr) k p))
                (zip [i..<i + length preds] preds)), None)"
  using assms(1)
proof (induction preds arbitrary: i)
  case Nil
  then show ?case by simp
next
  case (Cons p preds)
  have ok: "snd (save_mask pd bn pn (cvtColor bgr) i p) = None"
    using Cons.prems ne by (intro save_mask_no_error) simp_all
  have rest: "save_masks pd bn pn (cvtColor bgr) (Suc i) preds =
     (concat (map (\<lambda>(k, p). fst (save_mask pd bn pn (cvtColor bgr) k p))
                (zip [Suc i..<Suc i + length preds] preds)), None)"
    using Cons.prems by (intro Cons.IH) simp
  have upt: "[i..<i + length (p # preds)] = i # [Suc i..<Suc i + length preds]"
    by (subst upt_rec) simp
  obtain es where es: "save_mask pd bn pn (cvtColor bgr) i p = (es, None)"
    using ok by (cases "save_mask pd bn pn (cvtColor bgr) i p") auto
  show ?case
    unfolding upt by (simp add: es rest)
qed

text \<open>
  C1. For a label file \<open>f.001.png\<close> the base name that the claim describes, the file
  name without its extension, is \<open>f.001\<close>; line 304 cuts the name at its first dot
  and gives \<open>f\<close>, the same as for \<open>f.002.png\<close>. With an empty first mask and a
  non-empty second one, nothing is written for index 0, and the two files of index 1
  go to the parent directory of the label under the base name \<open>f\<close>.
\<close>

theorem base_name_stops_at_first_dot:
  "spec_base_name ''/data/labels/c1/t1/f.001.png'' = ''f.001'' \<and>
   spec_base_name ''/data/labels/c1/t1/f.002.png'' = ''f.002'' \<and>
   base_name ''/data/labels/c1/t1/f.001.png'' = ''f'' \<and>
   base_name ''/data/labels/c1/t1/f.002.png'' = ''f'' \<and>
   save_masks (parent_dir ''/data/labels/c1/t1/f.001.png'')
       (base_name ''/data/labels/c1/t1/f.001.png'') 3 (cvtColor bgr0) 0 [[], [plane0]] =
     ([Imwrite_gray ''/data/labels/c1/t1/f_LISA_mask_1_prompt3.png'' [[0, 255], [0, 255]],
       Print ''/data/labels/c1/t1/f_LISA_mask_1_prompt3.png has been saved.'',
       Imwrite_bgr ''/data/labels/c1/t1/f_LISA_masked_img_1_prompt3.png''
         [[(10, 20, 30), (20, 25, 158)], [(70, 80, 90), (127, 127, 255)]],
       Print ''/data/labels/c1/t1/f_LISA_masked_img_1_prompt3.png has been saved.''], None)"
proof -
  have ov: "overlay (cvtColor bgr0) (binarize plane0) =
      Inr [[(30, 20, 10), (158, 25, 20)], [(90, 80, 70), (255, 127, 127)]]"
    using to_uint8_blend_True [of 255 61] to_uint8_blend_True [of 0 50]
      to_uint8_blend_True [of 0 40] to_uint8_blend_True [of 255 255]
      to_uint8_blend_True [of 0 255]
    by (simp add: overlay_def cvtColor_def binarize_def plane0_def bgr0_def overlay_pixel_def)
  have gray: "gray_mask (binarize plane0) = [[0, 255], [0, 255]]"
    by (simp add: gray_mask_def binarize_def plane0_def)
  have swapped: "cvtColor [[(30, 20, 10), (158, 25, 20)], [(90, 80, 70), (255, 127, 127)]] =
      [[(10, 20, 30), (20, 25, 158)], [(70, 80, 90), (127, 127, 255)]]"
    by (simp add: cvtColor_def)
  have "save_mask ''/data/labels/c1/t1'' ''f'' 3 (cvtColor bgr0) 1 [plane0] =
     ([Imwrite_gray ''/data/labels/c1/t1/f_LISA_mask_1_prompt3.png'' [[0, 255], [0, 255]],
       Print ''/data/labels/c1/t1/f_LISA_mask_1_prompt3.png has been saved.'',
       Imwrite_bgr ''/data/labels/c1/t1/f_LISA_masked_img_1_prompt3.png''
         [[(10, 20, 30), (20, 25, 158)], [(70, 80, 90), (127, 127, 255)]],
       Print ''/data/labels/c1/t1/f_LISA_masked_img_1_prompt3.png has been saved.''], None)"
    unfolding save_mask_def sample_paths
    by (simp add: ov gray swapped raster_empty_def)
  then have "save_masks ''/data/labels/c1/t1'' ''f'' 3 (cvtColor bgr0) 0 [[], [plane0]] =
     ([Imwrite_gray ''/data/labels/c1/t1/f_LISA_mask_1_prompt3.png'' [[0, 255], [0, 255]],
       Print ''/data/labels/c1/t1/f_LISA_mask_1_prompt3.png has been saved.'',
       Imwrite_bgr ''/data/labels/c1/t1/f_LISA_masked_img_1_prompt3.png''
         [[(10, 20, 30), (20, 25, 158)], [(70, 80, 90), (127, 127, 255)]],
       Print ''/data/labels/c1/t1/f_LISA_masked_img_1_prompt3.png has been saved.''], None)"
    by (simp add: save_mask_def)
  then show ?thesis
    by (simp only: multi_dot_names simp_thms)
qed

subsection \<open>Pair discovery\<close>

lemma frame_loop_iff:
  "(ip, lp) \<in> set (frame_loop fs its lts frame_files) \<longleftrightarrow>
     (\<exists>f \<in> set frame_files.
        ip = path_join its f \<and> lp = path_join lts (label_file f) \<and> os_exists fs lp)"
  by (induction frame_files) (auto simp: Let_def)

lemma timestamp_loop_sound:
  "timestamp_loop fs icp lcp tss = Inr ps \<Longrightarrow> (ip, lp) \<in> set ps \<Longrightarrow> os_exists fs lp"
proof (induction tss arbitrary: ps)
  case Nil
  then show ?case by simp
next
  case (Cons ts tss)
  then show ?case
    by (auto simp: Let_def frame_loop_iff split: if_splits sum.splits)
qed

lemma timestamp_loop_complete:
  "timestamp_loop fs icp lcp tss = Inr ps \<Longrightarrow> ts \<in> set tss \<Longrightarrow>
   os_isdir fs (path_join lcp ts) \<Longrightarrow>
   \<exists>frame_files. os_listdir fs (path_join icp ts) = Inr frame_files \<and>
      set (frame_loop fs (path_join icp ts) (path_join lcp ts) frame_files) \<subseteq> set ps"
proof (induction tss arbitrary: ps)
  case Nil
  then show ?case by simp
next
  case (Cons t tss)
  then show ?case
    by (fastforce simp: Let_def split: if_splits sum.splits)
qed

lemma clip_loop_sound:
  "clip_loop fs r clips = Inr ps \<Longrightarrow> (ip, lp) \<in> set ps \<Longrightarrow> os_exists fs lp"
proof (induction clips arbitrary: ps)
  case Nil
  then show ?case by simp
next
  case (Cons c clips)
  then show ?case
    by (auto simp: Let_def split: sum.splits dest: timestamp_loop_sound)
qed

lemma clip_loop_complete:
  "clip_loop fs r clips = Inr ps \<Longrightarrow> clip \<in> set clips \<Longrightarrow>
   \<exists>tss found. os_listdir fs (path_join r clip) = Inr tss \<and>
      timestamp_loop fs (path_join r clip) (label_clip_path (path_join r clip)) tss = Inr found \<and>
      set found \<subseteq> set ps"
proof (induction clips arbitrary: ps)
  case Nil
  then show ?case by simp
next
  case (Cons c clips)
  then show ?case
    by (fastforce simp: Let_def split: sum.splits)
qed

lemma walk_loop_sound:
  "walk_loop fs w = Inr ps \<Longrightarrow> (ip, lp) \<in> set ps \<Longrightarrow> os_exists fs lp"
proof (induction fs w arbitrary: ps rule: walk_loop.induct)
  case (1 fs)
  then show ?case by simp
next
  case (2 fs r dirs files rest)
  then show ?case
    by (auto split: if_splits sum.splits dest: clip_loop_sound)
qed

lemma walk_loop_complete:
  "walk_loop fs w = Inr ps \<Longrightarrow> (r, dirs, files) \<in> set w \<Longrightarrow> basename r = ''images'' \<Longrightarrow>
   \<exists>found. clip_loop fs r dirs = Inr found \<and> set found \<subseteq> set ps"
proof (induction fs w arbitrary: ps rule: walk_loop.induct)
  case (1 fs)
  then show ?case by simp
next
  case (2 fs r' dirs' files' rest)
  then show ?case
    by (fastforce split: if_splits sum.splits)
qed

lemma sample_strings:
  "label_file ''f.jpeg'' = ''f.png''"
  "label_file ''g.jpeg'' = ''g.png''"
  "label_file ''a.jpeg.jpeg'' = ''a.png.png''"
  "spec_label_file ''a.jpeg.jpeg'' = ''a.jpeg.png''"
  "label_clip_path ''/data/images/c1'' = ''/data/labels/c1''"
  "basename ''/data'' = ''data''"
  "basename ''/data/images'' = ''images''"
  "basename ''/data/images/c1'' = ''c1''"
  "basename ''/data/images/c1/t1'' = ''t1''"
  "basename ''/data/labels'' = ''labels''"
  "basename ''/data/labels/c1'' = ''c1''"
  "basename ''/data/labels/c1/t1'' = ''t1''"
  by (code_simp+)

lemma sample_joins:
  "path_join ''/data/images'' ''c1'' = ''/data/images/c1''"
  "path_join ''/data/images/c1'' ''t1'' = ''/data/images/c1/t1''"
  "path_join ''/data/labels/c1'' ''t1'' = ''/data/labels/c1/t1''"
  "path_join ''/data/images/c1/t1'' ''f.jpeg'' = ''/data/images/c1/t1/f.jpeg''"
  "path_join ''/data/images/c1/t1'' ''g.jpeg'' = ''/data/images/c1/t1/g.jpeg''"
  "path_join ''/data/images/c1/t1'' ''a.jpeg.jpeg'' = ''/data/images/c1/t1/a.jpeg.jpeg''"
  "path_join ''/data/labels/c1/t1'' ''f.png'' = ''/data/labels/c1/t1/f.png''"
  "path_join ''/data/labels/c1/t1'' ''g.png'' = ''/data/labels/c1/t1/g.png''"
  "path_join ''/data/labels/c1/t1'' ''a.png.png'' = ''/data/labels/c1/t1/a.png.png''"
  "path_join ''/data/labels/c1/t1'' ''a.jpeg.png'' = ''/data/labels/c1/t1/a.jpeg.png''"
  by (code_simp+)

lemma collect_pairs_sample:
  "collect_pairs fs0 ''/data'' =
     Inr [(''/data/images/c1/t1/f.jpeg'', ''/data/labels/c1/t1/f.png'')]"
  by (simp add: collect_pairs_def fs0_def sample_strings sample_joins)

text \<open>
  C7, as stated, fails. The directory \<open>/data/images/c1/t1\<close> holds \<open>a.jpeg.jpeg\<close>, its
  label directory exists, and the file name with its extension \<open>.jpeg\<close> replaced by
  \<open>.png\<close>, which is \<open>a.jpeg.png\<close>, exists in the label directory; yet the only pair
  found is that of \<open>f.jpeg\<close>.
\<close>

theorem extension_label_counterexample:
  "collect_pairs fs0 ''/data'' =
     Inr [(''/data/images/c1/t1/f.jpeg'', ''/data/labels/c1/t1/f.png'')] \<and>
   os_listdir fs0 ''/data/images/c1/t1'' = Inr [''f.jpeg'', ''g.jpeg'', ''a.jpeg.jpeg''] \<and>
   os_isdir fs0 ''/data/labels/c1/t1'' \<and>
   spec_label_file ''a.jpeg.jpeg'' = ''a.jpeg.png'' \<and>
   os_exists fs0 (path_join ''/data/labels/c1/t1'' (spec_label_file ''a.jpeg.jpeg''))"
  by (simp add: collect_pairs_sample sample_strings sample_joins) (simp add: fs0_def)

text \<open>
  C7, amended. For every file enumerated in a matched timestamp directory during a
  pair discovery that completes, the pair of the image path and the computed label path
  is in the output list if and only if the computed label path exists, where the
  computed label path is the file name with every occurrence of \<open>.jpeg\<close> replaced by
  \<open>.png\<close> (Python's \<open>str.replace\<close>), placed under the labels timestamp directory.
\<close>

theorem pair_included_iff_label_exists:
  assumes run: "collect_pairs fs root_dir = Inr pairs"
    and walk: "(images_dir, dirs, files) \<in> set (os_walk fs root_dir)"
      "basename images_dir = ''images''"
    and clip: "clip_id \<in> set dirs"
      "os_listdir fs (path_join images_dir clip_id) = Inr timestamps"
    and ts: "timestamp \<in> set timestamps"
      "os_isdir fs (path_join (label_clip_path (path_join images_dir clip_id)) timestamp)"
      "os_listdir fs (path_join (path_join images_dir clip_id) timestamp) = Inr frame_files"
    and frame: "frame_file \<in> set frame_files"
  shows "(path_join (path_join (path_join images_dir clip_id) timestamp) frame_file,
          path_join (path_join (label_clip_path (path_join images_dir clip_id)) timestamp)
            (str_replace ''.jpeg'' ''.png'' frame_file)) \<in> set pairs
         \<longleftrightarrow>
         os_exists fs
           (path_join (path_join (label_clip_path (path_join images_dir clip_id)) timestamp)
              (str_replace ''.jpeg'' ''.png'' frame_file))"
    (is "(?ip, ?lp) \<in> set pairs \<longleftrightarrow> os_exists fs ?lp")
proof
  assume "(?ip, ?lp) \<in> set pairs"
  with run show "os_exists fs ?lp"
    by (auto simp: collect_pairs_def dest: walk_loop_sound)
next
  assume ex: "os_exists fs ?lp"
  let ?icp = "path_join images_dir clip_id"
  from run walk obtain found1 where f1: "clip_loop fs images_dir dirs = Inr found1"
      "set found1 \<subseteq> set pairs"
    unfolding collect_pairs_def by (blast dest: walk_loop_complete)
  from clip_loop_complete [OF f1(1) clip(1)] clip(2) obtain found2
    where f2: "timestamp_loop fs ?icp (label_clip_path ?icp) timestamps = Inr found2"
      "set found2 \<subseteq> set found1"
    by auto
  from timestamp_loop_complete [OF f2(1) ts(1,2)] ts(3)
  have "set (frame_loop fs (path_join ?icp timestamp)
          (path_join (label_clip_path ?icp) timestamp) frame_files) \<subseteq> set found2"
    by auto
  moreover have "(?ip, ?lp) \<in> set (frame_loop fs (path_join ?icp timestamp)
          (path_join (label_clip_path ?icp) timestamp) frame_files)"
    using frame ex by (auto simp: frame_loop_iff label_file_def)
  ultimately show "(?ip, ?lp) \<in> set pairs"
    using f1(2) f2(2) by blast
qed

theorem pair_included_iff_label_exists_witness:
  "collect_pairs fs0 ''/data'' =
     Inr [(''/data/images/c1/t1/f.jpeg'', ''/data/labels/c1/t1/f.png'')] \<and>
   (''/data/images'', [''c1''], []) \<in> set (os_walk fs0 ''/data'') \<and>
   basename ''/data/images'' = ''images'' \<and>
   os_listdir fs0 (path_join ''/data/images'' ''c1'') = Inr [''t1''] \<and>
   os_isdir fs0 (path_join (label_clip_path (path_join ''/data/images'' ''c1'')) ''t1'') \<and>
   os_listdir fs0 (path_join (path_join ''/data/images'' ''c1'') ''t1'') =
     Inr [''f.jpeg'', ''g.jpeg'', ''a.jpeg.jpeg''] \<and>
   os_exists fs0 ''/data/labels/c1/t1/f.png'' \<and>
   \<not> os_exists fs0 ''/data/labels/c1/t1/g.png'' \<and>
   (''/data/images/c1/t1/g.jpeg'', ''/data/labels/c1/t1/g.png'')
     \<notin> set [(''/data/images/c1/t1/f.jpeg'', ''/data/labels/c1/t1/f.png'')]"
proof -
  have walk: "(''/data/images'', [''c1''], []) \<in> set (os_walk fs0 ''/data'')"
    and clip: "os_listdir fs0 (path_join ''/data/images'' ''c1'') = Inr [''t1'']"
    and ts: "os_isdir fs0 (path_join (label_clip_path (path_join ''/data/images'' ''c1'')) ''t1'')"
      "os_listdir fs0 (path_join (path_join ''/data/images'' ''c1'') ''t1'') =
         Inr [''f.jpeg'', ''g.jpeg'', ''a.jpeg.jpeg'']"
    and ex: "os_exists fs0 ''/data/labels/c1/t1/f.png''"
      "\<not> os_exists fs0 ''/data/labels/c1/t1/g.png''"
    by (simp_all add: sample_strings sample_joins) (simp_all add: fs0_def)
  have "(path_join (path_join (path_join ''/data/images'' ''c1'') ''t1'') ''g.jpeg'',
          path_join (path_join (label_clip_path (path_join ''/data/images'' ''c1'')) ''t1'')
            (str_replace ''.jpeg'' ''.png'' ''g.jpeg''))
        \<in> set [(''/data/images/c1/t1/f.jpeg'', ''/data/labels/c1/t1/f.png'')]
       \<longleftrightarrow> os_exists fs0
          (path_join (path_join (label_clip_path (path_join ''/data/images'' ''c1'')) ''t1'')
            (str_replace ''.jpeg'' ''.png'' ''g.jpeg''))"
    by (rule pair_included_iff_label_exists [OF collect_pairs_sample walk _ _ clip _ ts])
      (simp_all add: sample_strings)
  then have "(''/data/images/c1/t1/g.jpeg'', ''/data/labels/c1/t1/g.png'')
     \<notin> set [(''/data/images/c1/t1/f.jpeg'', ''/data/labels/c1/t1/f.png'')]"
    using ex(2) sample_strings(2) [unfolded label_file_def]
    by (simp only: sample_strings sample_joins) simp
  with walk clip ts ex show ?thesis
    by (simp add: collect_pairs_sample sample_strings)
qed

end
